theory Spec2Isabelle
  imports Main "HOL-Library.Word"
begin

unbundle bit_operations_syntax

section \<open>Python values and exceptions\<close>

text \<open>
  The estimator of \<^verbatim>\<open>scripts/aws-cost-estimate.py\<close> reads a Terraform plan with
  \<^verbatim>\<open>json.load\<close>. The decoded document is a Python value built from
  \<^verbatim>\<open>None\<close>, booleans, integers, floats, strings, lists and dictionaries. A dictionary
  is held as the list of its items in insertion order (what \<^verbatim>\<open>json.load\<close> leaves
  after it has resolved duplicate keys); a float is held as its 64 IEEE bits.
\<close>

datatype json =
    JNull
  | JBool bool
  | JInt int
  | JFloat "64 word"
  | JStr string
  | JArr "json list"
  | JObj "(string \<times> json) list"

text \<open>The exceptions that the script can meet. None of them is caught outside the two
  price lookups, so outside them an exception ends the run.\<close>

datatype error =
    OSError
  | JSONDecodeError
  | AttributeError
  | TypeError
  | KeyError
  | IndexError
  | InvalidOperation
  | Overflow
  | ValueError

definition ebind :: "error + 'a \<Rightarrow> ('a \<Rightarrow> error + 'b) \<Rightarrow> error + 'b" where
  "ebind m f = (case m of Inl e \<Rightarrow> Inl e | Inr v \<Rightarrow> f v)"

text \<open>Truth value of a decoded value, as \<^verbatim>\<open>if instance_type:\<close> tests it. A float is
  false exactly when it is \<open>+0.0\<close> or \<open>-0.0\<close>: all bits below the sign bit are zero.\<close>

fun truthy :: "json \<Rightarrow> bool" where
  "truthy JNull = False"
| "truthy (JBool b) = b"
| "truthy (JInt i) = (i \<noteq> 0)"
| "truthy (JFloat w) = (take_bit 63 w \<noteq> 0)"
| "truthy (JStr s) = (s \<noteq> [])"
| "truthy (JArr xs) = (xs \<noteq> [])"
| "truthy (JObj kvs) = (kvs \<noteq> [])"

text \<open>\<^verbatim>\<open>d.get(key, default)\<close>: only a dictionary has the method.\<close>

fun dict_get :: "json \<Rightarrow> string \<Rightarrow> json \<Rightarrow> error + json" where
  "dict_get (JObj kvs) k dflt = Inr (case map_of kvs k of None \<Rightarrow> dflt | Some v \<Rightarrow> v)"
| "dict_get _ k dflt = Inl AttributeError"

text \<open>\<^verbatim>\<open>for change in v\<close>: a list gives its elements, a string its characters, a
  dictionary its keys; anything else is not iterable.\<close>

fun py_iter :: "json \<Rightarrow> error + json list" where
  "py_iter (JArr xs) = Inr xs"
| "py_iter (JStr s) = Inr (map (\<lambda>c. JStr [c]) s)"
| "py_iter (JObj kvs) = Inr (map (\<lambda>kv. JStr (fst kv)) kvs)"
| "py_iter _ = Inl TypeError"

section \<open>PlanParser: \<^verbatim>\<open>parse_terraform_plan\<close>\<close>

record resources =
  ec2_instances :: "json list"
  rds_instances :: "json list"
  albs :: nat
  nat_gateways :: nat

definition empty_resources :: resources where
  "empty_resources = \<lparr>ec2_instances = [], rds_instances = [], albs = 0, nat_gateways = 0\<rparr>"

text \<open>The \<^verbatim>\<open>if\<close>/\<^verbatim>\<open>elif\<close> chain on the type tag (source lines 113 to 132).\<close>

definition classify :: "resources \<Rightarrow> json \<Rightarrow> json \<Rightarrow> error + resources" where
  "classify res resource_type after =
    (if resource_type = JStr ''aws_instance'' then
       ebind (dict_get after ''instance_type'' JNull) (\<lambda>instance_type.
         Inr (if truthy instance_type
              then res\<lparr>ec2_instances := ec2_instances res @ [instance_type]\<rparr> else res))
     else if resource_type = JStr ''aws_launch_template'' then
       ebind (dict_get after ''instance_type'' JNull) (\<lambda>instance_type.
         Inr (if truthy instance_type
              then res\<lparr>ec2_instances := ec2_instances res @ [instance_type]\<rparr> else res))
     else if resource_type = JStr ''aws_db_instance'' then
       ebind (dict_get after ''instance_class'' JNull) (\<lambda>instance_class.
         Inr (if truthy instance_class
              then res\<lparr>rds_instances := rds_instances res @ [instance_class]\<rparr> else res))
     else if resource_type = JStr ''aws_lb'' \<or> resource_type = JStr ''aws_alb'' then
       Inr (res\<lparr>albs := albs res + 1\<rparr>)
     else if resource_type = JStr ''aws_nat_gateway'' then
       Inr (res\<lparr>nat_gateways := nat_gateways res + 1\<rparr>)
     else Inr res)"

text \<open>One turn of the loop over \<^verbatim>\<open>resource_changes\<close> (source lines 104 to 132).\<close>

definition process_change :: "resources \<Rightarrow> json \<Rightarrow> error + resources" where
  "process_change res change =
    ebind (dict_get change ''type'' JNull) (\<lambda>resource_type.
    ebind (dict_get change ''change'' (JObj [])) (\<lambda>chg.
    ebind (dict_get chg ''actions'' (JArr [])) (\<lambda>change_action.
      if change_action = JArr [JStr ''delete''] then Inr res
      else
        ebind (dict_get change ''change'' (JObj [])) (\<lambda>chg'.
        ebind (dict_get chg' ''after'' (JObj [])) (\<lambda>after.
          classify res resource_type after)))))"

fun parse_loop :: "resources \<Rightarrow> json list \<Rightarrow> error + resources" where
  "parse_loop res [] = Inr res"
| "parse_loop res (change # rest) =
     (case process_change res change of
        Inl e \<Rightarrow> Inl e
      | Inr res' \<Rightarrow> parse_loop res' rest)"

text \<open>The plan file: \<^verbatim>\<open>open\<close> may fail, \<^verbatim>\<open>json.load\<close> may fail, or the file
  decodes to a document.\<close>

datatype plan_file = Unreadable | NotJson | Document json

definition parse_terraform_plan :: "plan_file \<Rightarrow> error + resources" where
  "parse_terraform_plan plan_file =
    (case plan_file of
       Unreadable \<Rightarrow> Inl OSError
     | NotJson \<Rightarrow> Inl JSONDecodeError
     | Document plan \<Rightarrow>
         ebind (dict_get plan ''resource_changes'' (JArr [])) (\<lambda>changes.
         ebind (py_iter changes) (\<lambda>entries.
           parse_loop empty_resources entries)))"

text \<open>A change entry of the shape the plan format gives: a type tag, an action list and
  the attributes after the change.\<close>

definition change_entry :: "json \<Rightarrow> json \<Rightarrow> json \<Rightarrow> json" where
  "change_entry resource_type actions after =
     JObj [(''type'', resource_type),
           (''change'', JObj [(''actions'', actions), (''after'', after)])]"

section \<open>Decimal numbers\<close>

text \<open>
  Prices are values of Python's \<^verbatim>\<open>decimal.Decimal\<close>: a sign, a coefficient and an
  exponent (the value is the signed coefficient times \<open>10 ^ exponent\<close>), or one of the
  special values. The script never changes the arithmetic context, so every operation
  rounds its exact result to 28 significant digits, ties to even, with exponents between
  \<open>-999999\<close> and \<open>999999\<close>, and raises on the signals \<^verbatim>\<open>InvalidOperation\<close> and
  \<^verbatim>\<open>Overflow\<close>. The sign is \<open>True\<close> for a negative number.
\<close>

datatype decimal =
    Finite bool nat int
  | Infinity bool
  | NaN bool nat
  | SNaN bool nat

definition prec :: nat where "prec = 28"
definition Emax :: int where "Emax = 999999"
definition Emin :: int where "Emin = - 999999"
definition Etiny :: int where "Etiny = Emin - (int prec - 1)"
definition Etop :: int where "Etop = Emax - (int prec - 1)"

text \<open>The decimal digits of a coefficient, and how many there are.\<close>

definition digit_char :: "nat \<Rightarrow> char" where
  "digit_char d = ''0123456789'' ! d"

fun digits :: "nat \<Rightarrow> string" where
  "digits n = (if n < 10 then [digit_char n] else digits (n div 10) @ [digit_char (n mod 10)])"

fun ndigits :: "nat \<Rightarrow> nat" where
  "ndigits n = (if n < 10 then 1 else Suc (ndigits (n div 10)))"

declare digits.simps [simp del] ndigits.simps [simp del]

text \<open>Dropping the last \<open>k\<close> digits of a coefficient, rounding half to even.\<close>

definition round_half_even :: "nat \<Rightarrow> nat \<Rightarrow> nat" where
  "round_half_even c k =
     (let q = c div 10 ^ k; r = c mod 10 ^ k
      in if 10 ^ k < 2 * r \<or> (2 * r = 10 ^ k \<and> odd q) then q + 1 else q)"

text \<open>Rounding a result into the context (\<^verbatim>\<open>Decimal._fix\<close>).\<close>

fun dec_fix :: "decimal \<Rightarrow> error + decimal" where
  "dec_fix (Finite s c e) =
     (if c = 0 then Inr (Finite s 0 (min (max e Etiny) Emax))
      else
        let exp_min0 = int (ndigits c) + e - int prec in
        if Etop < exp_min0 then Inl Overflow
        else
          let exp_min = max exp_min0 Etiny in
          if e < exp_min then
            let q = round_half_even c (nat (exp_min - e));
                coeff = (if prec < ndigits q then q div 10 else q);
                exp_min' = (if prec < ndigits q then exp_min + 1 else exp_min)
            in if Etop < exp_min' then Inl Overflow else Inr (Finite s coeff exp_min')
          else Inr (Finite s c e))"
| "dec_fix (Infinity s) = Inr (Infinity s)"
| "dec_fix (NaN s p) = Inr (NaN s (p mod 10 ^ prec))"
| "dec_fix (SNaN s p) = Inr (SNaN s (p mod 10 ^ prec))"

fun is_nan :: "decimal \<Rightarrow> bool" where
  "is_nan (NaN s p) = True"
| "is_nan (SNaN s p) = True"
| "is_nan _ = False"

fun is_snan :: "decimal \<Rightarrow> bool" where
  "is_snan (SNaN s p) = True"
| "is_snan _ = False"

fun dec_sign :: "decimal \<Rightarrow> bool" where
  "dec_sign (Finite s c e) = s"
| "dec_sign (Infinity s) = s"
| "dec_sign (NaN s p) = s"
| "dec_sign (SNaN s p) = s"

text \<open>The coefficient with its sign, scaled to an exponent \<open>e\<close> that is not above the
  number's own.\<close>

definition scaled :: "bool \<Rightarrow> nat \<Rightarrow> int \<Rightarrow> int \<Rightarrow> int" where
  "scaled s c e1 e = (if s then - int c else int c) * 10 ^ nat (e1 - e)"

text \<open>\<^verbatim>\<open>a + b\<close> (\<^verbatim>\<open>Decimal.__add__\<close>).\<close>

fun dec_add :: "decimal \<Rightarrow> decimal \<Rightarrow> error + decimal" where
  "dec_add (Finite s1 c1 e1) (Finite s2 c2 e2) =
     (let e = min e1 e2;
          v = scaled s1 c1 e1 e + scaled s2 c2 e2 e
      in dec_fix (Finite (if v = 0 then s1 \<and> s2 else v < 0) (nat \<bar>v\<bar>) e))"
| "dec_add a b =
     (if is_snan a \<or> is_snan b then Inl InvalidOperation
      else if is_nan a then dec_fix a
      else if is_nan b then dec_fix b
      else case a of
        Infinity s1 \<Rightarrow>
          (case b of
             Infinity s2 \<Rightarrow> if s1 \<noteq> s2 then Inl InvalidOperation else Inr a
           | _ \<Rightarrow> Inr a)
      | _ \<Rightarrow> Inr b)"

text \<open>\<^verbatim>\<open>a * b\<close> (\<^verbatim>\<open>Decimal.__mul__\<close>).\<close>

fun is_zero :: "decimal \<Rightarrow> bool" where
  "is_zero (Finite s c e) = (c = 0)"
| "is_zero _ = False"

fun dec_mul :: "decimal \<Rightarrow> decimal \<Rightarrow> error + decimal" where
  "dec_mul (Finite s1 c1 e1) (Finite s2 c2 e2) = dec_fix (Finite (s1 \<noteq> s2) (c1 * c2) (e1 + e2))"
| "dec_mul a b =
     (if is_snan a \<or> is_snan b then Inl InvalidOperation
      else if is_nan a then dec_fix a
      else if is_nan b then dec_fix b
      else if is_zero a \<or> is_zero b then Inl InvalidOperation
      else Inr (Infinity (dec_sign a \<noteq> dec_sign b)))"

text \<open>\<^verbatim>\<open>Decimal(n)\<close> for a Python integer, which is also how an integer operand of
  \<^verbatim>\<open>*\<close> or \<^verbatim>\<open>>\<close> is converted. The conversion is exact.\<close>

definition dec_of_int :: "int \<Rightarrow> decimal" where
  "dec_of_int n = Finite (n < 0) (nat \<bar>n\<bar>) 0"

text \<open>\<^verbatim>\<open>a > b\<close>: a comparison that meets a NaN raises.\<close>

fun dec_gt :: "decimal \<Rightarrow> decimal \<Rightarrow> error + bool" where
  "dec_gt (Finite s1 c1 e1) (Finite s2 c2 e2) =
     Inr (scaled s2 c2 e2 (min e1 e2) < scaled s1 c1 e1 (min e1 e2))"
| "dec_gt a b =
     (if is_nan a \<or> is_nan b then Inl InvalidOperation
      else case a of
        Infinity s1 \<Rightarrow> (case b of Infinity s2 \<Rightarrow> Inr (\<not> s1 \<and> s2) | _ \<Rightarrow> Inr (\<not> s1))
      | _ \<Rightarrow> Inr (dec_sign b))"

text \<open>Truth value (\<^verbatim>\<open>if price:\<close>): false for a zero only.\<close>

fun dec_bool :: "decimal \<Rightarrow> bool" where
  "dec_bool (Finite s c e) = (c \<noteq> 0)"
| "dec_bool _ = True"

text \<open>\<^verbatim>\<open>str(d)\<close>, which is also what \<^verbatim>\<open>f"{d}"\<close> gives.\<close>

definition sign_str :: "bool \<Rightarrow> string" where
  "sign_str s = (if s then ''-'' else [])"

definition payload_str :: "nat \<Rightarrow> string" where
  "payload_str p = (if p = 0 then [] else digits p)"

definition exp_str :: "int \<Rightarrow> string" where
  "exp_str x = (if 0 \<le> x then ''+'' else ''-'') @ digits (nat \<bar>x\<bar>)"

fun dec_str :: "decimal \<Rightarrow> string" where
  "dec_str (Finite s c e) =
     (let ds = digits c;
          leftdigits = e + int (length ds);
          dotplace = (if e \<le> 0 \<and> - 6 < leftdigits then leftdigits else 1);
          intpart = (if dotplace \<le> 0 then ''0''
                     else if int (length ds) \<le> dotplace
                       then ds @ replicate (nat (dotplace - int (length ds))) CHR ''0''
                     else take (nat dotplace) ds);
          fracpart = (if dotplace \<le> 0 then ''.'' @ replicate (nat (- dotplace)) CHR ''0'' @ ds
                      else if int (length ds) \<le> dotplace then []
                      else ''.'' @ drop (nat dotplace) ds);
          ex = (if leftdigits = dotplace then [] else ''E'' @ exp_str (leftdigits - dotplace))
      in sign_str s @ intpart @ fracpart @ ex)"
| "dec_str (Infinity s) = sign_str s @ ''Infinity''"
| "dec_str (NaN s p) = sign_str s @ ''NaN'' @ payload_str p"
| "dec_str (SNaN s p) = sign_str s @ ''sNaN'' @ payload_str p"

text \<open>\<^verbatim>\<open>f"{d:.2f}"\<close>: the number is brought to exponent \<open>-2\<close> with the context's
  rounding (half to even), then written with two decimals.\<close>

definition rescale2 :: "nat \<Rightarrow> int \<Rightarrow> nat" where
  "rescale2 c e =
     (if c = 0 then 0
      else if - 2 \<le> e then c * 10 ^ nat (e + 2)
      else round_half_even c (nat (- 2 - e)))"

fun dec_format_2f :: "decimal \<Rightarrow> string" where
  "dec_format_2f (Finite s c e) =
     (let c' = rescale2 c e
      in sign_str s @ digits (c' div 100) @ ''.''
           @ [digit_char (c' mod 100 div 10), digit_char (c' mod 10)])"
| "dec_format_2f d = dec_str d"

section \<open>Binary floats\<close>

text \<open>
  \<^verbatim>\<open>float(d)\<close> for a decimal \<open>d\<close> is \<^verbatim>\<open>float(str(d))\<close>: the IEEE double nearest to
  the decimal's value, ties to even, an infinity when the value is out of range. A double
  is held as its 64 bits. For a positive ratio \<open>n / d\<close> with
  \<open>2 ^ k \<le> n / d < 2 ^ (k + 1)\<close> the unit in the last place is \<open>2 ^ p\<close> with
  \<open>p = max (k - 52) (- 1074)\<close>, the significand \<open>m\<close> is the ratio divided by \<open>2 ^ p\<close>
  and rounded, and the bits below the sign are \<open>(p + 1074) * 2 ^ 52 + m\<close> (a significand
  that rounds up to \<open>2 ^ 53\<close> carries into the exponent field), or those of the infinity
  when the exponent field would be full.
\<close>

fun bit_length :: "nat \<Rightarrow> nat" where
  "bit_length n = (if n = 0 then 0 else Suc (bit_length (n div 2)))"

declare bit_length.simps [simp del]

text \<open>The integer nearest to \<open>n / d\<close>, ties to even.\<close>

definition round_ratio :: "nat \<Rightarrow> nat \<Rightarrow> nat" where
  "round_ratio n d =
     (let q = n div d; r = n mod d
      in if d < 2 * r \<or> (2 * r = d \<and> odd q) then q + 1 else q)"

definition sign_bit :: "bool \<Rightarrow> 64 word" where
  "sign_bit s = (if s then 2 ^ 63 else 0)"

text \<open>The exponent \<open>k\<close> of a positive ratio: \<open>2 ^ k \<le> n / d < 2 ^ (k + 1)\<close>.\<close>

definition above_power :: "nat \<Rightarrow> nat \<Rightarrow> int \<Rightarrow> bool" where
  "above_power n d k = (if 0 \<le> k then d * 2 ^ nat k \<le> n else d \<le> n * 2 ^ nat (- k))"

definition binary_exponent :: "nat \<Rightarrow> nat \<Rightarrow> int" where
  "binary_exponent n d =
     (if above_power n d (int (bit_length n) - int (bit_length d))
      then int (bit_length n) - int (bit_length d)
      else int (bit_length n) - int (bit_length d) - 1)"

text \<open>The ratio in units of \<open>2 ^ p\<close>, rounded.\<close>

definition significand :: "nat \<Rightarrow> nat \<Rightarrow> int \<Rightarrow> nat" where
  "significand n d p =
     (if 0 \<le> p then round_ratio n (d * 2 ^ nat p) else round_ratio (n * 2 ^ nat (- p)) d)"

definition pack :: "bool \<Rightarrow> int \<Rightarrow> nat \<Rightarrow> 64 word" where
  "pack s p m = sign_bit s + of_nat (min (nat (p + 1074) * 2 ^ 52 + m) (2047 * 2 ^ 52))"

definition round_to_unit :: "bool \<Rightarrow> nat \<Rightarrow> nat \<Rightarrow> int \<Rightarrow> 64 word" where
  "round_to_unit s n d p = pack s p (significand n d p)"

definition binary64 :: "bool \<Rightarrow> nat \<Rightarrow> nat \<Rightarrow> 64 word" where
  "binary64 s n d =
     (if n = 0 then sign_bit s
      else round_to_unit s n d (max (binary_exponent n d - 52) (- 1074)))"

text \<open>\<^verbatim>\<open>Decimal.__float__\<close>: a signaling NaN cannot be converted.\<close>

fun float_of_decimal :: "decimal \<Rightarrow> error + 64 word" where
  "float_of_decimal (Finite s c e) =
     Inr (if 0 \<le> e then binary64 s (c * 10 ^ nat e) 1 else binary64 s c (10 ^ nat (- e)))"
| "float_of_decimal (Infinity s) = Inr (sign_bit s + 0x7FF0000000000000)"
| "float_of_decimal (NaN s p) = Inr (sign_bit s + 0x7FF8000000000000)"
| "float_of_decimal (SNaN s p) = Inl ValueError"

text \<open>\<^verbatim>\<open>f"{x:.2f}"\<close> for a float \<open>x\<close>: the exact value of the double, which is
  \<open>m * 2 ^ p\<close>, rounded to two decimals, ties to even.\<close>

definition two_decimals :: "bool \<Rightarrow> nat \<Rightarrow> string" where
  "two_decimals s c =
     sign_str s @ digits (c div 100) @ ''.''
       @ [digit_char (c mod 100 div 10), digit_char (c mod 10)]"

definition format_finite :: "bool \<Rightarrow> nat \<Rightarrow> int \<Rightarrow> string" where
  "format_finite s m p =
     two_decimals s
       (if 0 \<le> p then m * 100 * 2 ^ nat p else round_ratio (m * 100) (2 ^ nat (- p)))"

definition format_fields :: "bool \<Rightarrow> nat \<Rightarrow> nat \<Rightarrow> string" where
  "format_fields s biased fraction =
     (if biased = 2047 then (if fraction = 0 then sign_str s @ ''inf'' else ''nan'')
      else if biased = 0 then format_finite s fraction (- 1074)
      else format_finite s (fraction + 2 ^ 52) (int biased - 1075))"

definition float_format_2f :: "64 word \<Rightarrow> string" where
  "float_format_2f w =
     format_fields (2 ^ 63 \<le> unat w) (unat w div 2 ^ 52 mod 2 ^ 11) (unat w mod 2 ^ 52)"

section \<open>PriceResolver: the catalog and the price lookups\<close>

text \<open>
  The pricing catalog is outside the repository: \<^verbatim>\<open>self.pricing_client\<close> is a boto3
  client. It is a parameter of the model. A call of \<^verbatim>\<open>get_products\<close> either raises or
  delivers a response with its \<^verbatim>\<open>PriceList\<close>, a list of JSON texts.

  Two library calls sit between the response and the price: \<^verbatim>\<open>json.loads\<close> on a
  price-list entry and the constructor \<^verbatim>\<open>Decimal(...)\<close> on the value found under
  \<^verbatim>\<open>USD\<close>. An entry is held by what \<^verbatim>\<open>json.loads\<close> makes of it, and a decoded
  value that is not a dictionary by what \<^verbatim>\<open>Decimal(...)\<close> makes of it (\<open>None\<close> when
  the constructor raises, as it does on a malformed string). The constructor does not
  round, so every \<^typ>\<open>decimal\<close> can be the result.
\<close>

datatype pvalue =
    PDict "(string \<times> pvalue) list"
  | PLeaf "decimal option"

datatype price_text = Undecodable | Decoded pvalue

datatype response = Raised | Response "price_text list"

text \<open>A request: the service code, the filters as (type, field, value) and
  \<^verbatim>\<open>MaxResults\<close>.\<close>

type_synonym request = "string \<times> (string \<times> string \<times> string) list \<times> nat"

record estimator =
  region :: string
  pricing_client :: "request \<Rightarrow> response"

text \<open>\<^verbatim>\<open>v[key]\<close> with a string key: a lookup in a dictionary, a
  \<^verbatim>\<open>TypeError\<close> on every other decoded value.\<close>

fun subscript :: "pvalue \<Rightarrow> string \<Rightarrow> error + pvalue" where
  "subscript (PDict kvs) k = (case map_of kvs k of None \<Rightarrow> Inl KeyError | Some v \<Rightarrow> Inr v)"
| "subscript (PLeaf d) k = Inl TypeError"

text \<open>\<^verbatim>\<open>list(v.values())[0]\<close>.\<close>

fun first_value :: "pvalue \<Rightarrow> error + pvalue" where
  "first_value (PDict []) = Inl IndexError"
| "first_value (PDict (kv # kvs)) = Inr (snd kv)"
| "first_value (PLeaf d) = Inl AttributeError"

text \<open>\<^verbatim>\<open>Decimal(v)\<close>: a dictionary is not accepted.\<close>

fun Decimal :: "pvalue \<Rightarrow> error + decimal" where
  "Decimal (PDict kvs) = Inl TypeError"
| "Decimal (PLeaf None) = Inl InvalidOperation"
| "Decimal (PLeaf (Some d)) = Inr d"

definition json_loads :: "price_text \<Rightarrow> error + pvalue" where
  "json_loads t = (case t of Undecodable \<Rightarrow> Inl JSONDecodeError | Decoded v \<Rightarrow> Inr v)"

definition region_to_location :: "estimator \<Rightarrow> string" where
  "region_to_location self =
     (case map_of [(''eu-north-1'', ''EU (Stockholm)''),
                   (''us-east-1'', ''US East (N. Virginia)''),
                   (''us-west-2'', ''US West (Oregon)''),
                   (''eu-west-1'', ''EU (Ireland)'')] (region self) of
        None \<Rightarrow> ''EU (Stockholm)''
      | Some location \<Rightarrow> location)"

text \<open>The body of the \<^verbatim>\<open>try\<close> after the call (source lines 35 to 40, and the same
  text at lines 59 to 64): \<open>Inr None\<close> when the price list is empty and control leaves the
  \<^verbatim>\<open>try\<close> without a \<^verbatim>\<open>return\<close>.\<close>

definition read_price :: "price_text list \<Rightarrow> error + decimal option" where
  "read_price price_list =
     (case price_list of
        [] \<Rightarrow> Inr None
      | first # _ \<Rightarrow>
          ebind (json_loads first) (\<lambda>price_item.
          ebind (subscript price_item ''terms'') (\<lambda>terms.
          ebind (subscript terms ''OnDemand'') (\<lambda>on_demand.
          ebind (first_value on_demand) (\<lambda>offer.
          ebind (subscript offer ''priceDimensions'') (\<lambda>price_dimensions.
          ebind (first_value price_dimensions) (\<lambda>dimension.
          ebind (subscript dimension ''pricePerUnit'') (\<lambda>price_per_unit.
          ebind (subscript price_per_unit ''USD'') (\<lambda>price_per_hour.
          ebind (Decimal price_per_hour) (\<lambda>d. Inr (Some d)))))))))))"

text \<open>\<^verbatim>\<open>except Exception\<close> turns every exception of the body into a warning and the
  answer \<^verbatim>\<open>None\<close>.\<close>

definition catch_all :: "error + decimal option \<Rightarrow> decimal option" where
  "catch_all r = (case r of Inl e \<Rightarrow> None | Inr p \<Rightarrow> p)"

definition ec2_request :: "estimator \<Rightarrow> string \<Rightarrow> request" where
  "ec2_request self instance_type =
     (''AmazonEC2'',
      [(''TERM_MATCH'', ''instanceType'', instance_type),
       (''TERM_MATCH'', ''location'', region_to_location self),
       (''TERM_MATCH'', ''operatingSystem'', ''Linux''),
       (''TERM_MATCH'', ''tenancy'', ''Shared''),
       (''TERM_MATCH'', ''capacitystatus'', ''Used''),
       (''TERM_MATCH'', ''preInstalledSw'', ''NA'')],
      1)"

definition rds_request :: "estimator \<Rightarrow> string \<Rightarrow> request" where
  "rds_request self instance_class =
     (''AmazonRDS'',
      [(''TERM_MATCH'', ''instanceType'', instance_class),
       (''TERM_MATCH'', ''location'', region_to_location self),
       (''TERM_MATCH'', ''databaseEngine'', ''PostgreSQL''),
       (''TERM_MATCH'', ''deploymentOption'', ''Single-AZ'')],
      1)"

text \<open>The client checks its parameters before it sends anything: a filter value that is
  not a string makes \<^verbatim>\<open>get_products\<close> raise, inside the \<^verbatim>\<open>try\<close>.\<close>

definition get_products :: "estimator \<Rightarrow> (estimator \<Rightarrow> string \<Rightarrow> request) \<Rightarrow> json \<Rightarrow> response" where
  "get_products self req v =
     (case v of JStr name \<Rightarrow> pricing_client self (req self name) | _ \<Rightarrow> Raised)"

definition get_ec2_price :: "estimator \<Rightarrow> json \<Rightarrow> decimal option" where
  "get_ec2_price self instance_type =
     (case get_products self ec2_request instance_type of
        Raised \<Rightarrow> None
      | Response price_list \<Rightarrow> catch_all (read_price price_list))"

definition get_rds_price :: "estimator \<Rightarrow> json \<Rightarrow> decimal option" where
  "get_rds_price self instance_class =
     (case get_products self rds_request instance_class of
        Raised \<Rightarrow> None
      | Response price_list \<Rightarrow> catch_all (read_price price_list))"

definition get_alb_price :: decimal where
  "get_alb_price = Finite False 225 (- 4)"

definition get_nat_gateway_price :: decimal where
  "get_nat_gateway_price = Finite False 45 (- 3)"

section \<open>CostAggregator: \<^verbatim>\<open>estimate_cost\<close>\<close>

text \<open>An instance type is written into a breakdown line only when it has a price, and
  only a string has one; so \<^verbatim>\<open>f"{instance_type}"\<close> is the string itself.\<close>

fun py_str :: "json \<Rightarrow> string" where
  "py_str (JStr s) = s"
| "py_str _ = []"

text \<open>The two loops over the instances (source lines 145 to 149 and 158 to 162), with
  the running hourly sum and the breakdown as the state.\<close>

fun price_loop ::
  "(json \<Rightarrow> decimal option) \<Rightarrow> string \<Rightarrow> json list \<Rightarrow> decimal \<times> string list
     \<Rightarrow> error + decimal \<times> string list" where
  "price_loop get_price label [] st = Inr st"
| "price_loop get_price label (instance_type # rest) st =
     (case get_price instance_type of
        None \<Rightarrow> price_loop get_price label rest st
      | Some price \<Rightarrow>
          if dec_bool price then
            ebind (dec_add (fst st) price) (\<lambda>hourly.
              price_loop get_price label rest
                (hourly, snd st @ [label @ py_str instance_type @ '': $'' @ dec_str price @ ''/hour'']))
          else price_loop get_price label rest st)"

text \<open>The subtotal of a priced category (source lines 151 to 154 and 164 to 167); the
  state is the monthly cost and the breakdown.\<close>

definition add_subtotal ::
  "string \<Rightarrow> decimal \<Rightarrow> decimal \<times> string list \<Rightarrow> error + decimal \<times> string list" where
  "add_subtotal label hourly st =
     ebind (dec_gt hourly (dec_of_int 0)) (\<lambda>positive.
       if positive then
         ebind (dec_mul hourly (dec_of_int 730)) (\<lambda>monthly.
         ebind (dec_add (fst st) monthly) (\<lambda>monthly_cost.
           Inr (monthly_cost, snd st @ [label @ dec_format_2f monthly @ ''/month''])))
       else Inr st)"

text \<open>A flat-rate category (source lines 170 to 174 and 177 to 181).\<close>

definition add_flat ::
  "string \<Rightarrow> string \<Rightarrow> decimal \<Rightarrow> nat \<Rightarrow> decimal \<times> string list
     \<Rightarrow> error + decimal \<times> string list" where
  "add_flat label note price n st =
     (if 0 < n then
        ebind (dec_mul price (dec_of_int 730)) (\<lambda>m.
        ebind (dec_mul m (dec_of_int (int n))) (\<lambda>monthly.
        ebind (dec_add (fst st) monthly) (\<lambda>monthly_cost.
          Inr (monthly_cost,
               snd st @ [label @ '' ('' @ digits n @ ''x): $'' @ dec_format_2f monthly
                           @ ''/month ('' @ note @ '')'']))))
      else Inr st)"

text \<open>The result, with \<^verbatim>\<open>monthly_cost\<close> converted by \<^verbatim>\<open>float(...)\<close>
  (source line 184).\<close>

record estimate =
  monthly_cost :: "64 word"
  breakdown :: "string list"
  resources :: resources

definition aggregate :: "estimator \<Rightarrow> resources \<Rightarrow> error + estimate" where
  "aggregate self res =
     ebind (price_loop (get_ec2_price self) ''EC2 '' (ec2_instances res) (dec_of_int 0, []))
       (\<lambda>ec2.
     ebind (add_subtotal ''**EC2 Total**: $'' (fst ec2) (dec_of_int 0, snd ec2)) (\<lambda>st1.
     ebind (price_loop (get_rds_price self) ''RDS '' (rds_instances res) (dec_of_int 0, snd st1))
       (\<lambda>rds.
     ebind (add_subtotal ''**RDS Total**: $'' (fst rds) (fst st1, snd rds)) (\<lambda>st2.
     ebind (add_flat ''ALB'' ''excluding LCU'' get_alb_price (albs res) st2) (\<lambda>st3.
     ebind (add_flat ''NAT Gateway'' ''excluding data transfer'' get_nat_gateway_price
              (nat_gateways res) st3) (\<lambda>st4.
     ebind (float_of_decimal (fst st4)) (\<lambda>total.
       Inr \<lparr>monthly_cost = total, breakdown = snd st4, resources = res\<rparr>)))))))"

definition estimate_cost :: "estimator \<Rightarrow> plan_file \<Rightarrow> error + estimate" where
  "estimate_cost self plan_file =
     ebind (parse_terraform_plan plan_file) (\<lambda>res. aggregate self res)"

text \<open>The line of the report that \<^verbatim>\<open>main\<close> prints for the total (source line 203).\<close>

definition total_line :: "estimate \<Rightarrow> string" where
  "total_line result = ''**Estimated Monthly Cost**: $'' @ float_format_2f (monthly_cost result)"

section \<open>Plans, entries and a sample catalog for the statements\<close>

text \<open>What the loop reads from one entry of \<^verbatim>\<open>resource_changes\<close>: the type tag, the
  action list and the attributes after the change, with the defaults of the three
  \<^verbatim>\<open>get\<close> calls. The answer is \<open>None\<close> when the entry, or its \<^verbatim>\<open>change\<close> field, is
  not a dictionary.\<close>

definition entry_parts :: "json \<Rightarrow> (json \<times> json \<times> json) option" where
  "entry_parts change =
     (case dict_get change ''type'' JNull of
        Inl e \<Rightarrow> None
      | Inr resource_type \<Rightarrow>
          (case dict_get change ''change'' (JObj []) of
             Inl e \<Rightarrow> None
           | Inr chg \<Rightarrow>
               (case dict_get chg ''actions'' (JArr []) of
                  Inl e \<Rightarrow> None
                | Inr change_action \<Rightarrow>
                    (case dict_get chg ''after'' (JObj []) of
                       Inl e \<Rightarrow> None
                     | Inr after \<Rightarrow> Some (resource_type, change_action, after)))))"

definition delete_only :: "json \<Rightarrow> bool" where
  "delete_only change =
     (case entry_parts change of
        None \<Rightarrow> False
      | Some parts \<Rightarrow> fst (snd parts) = JArr [JStr ''delete''])"

definition unrecognized :: "json \<Rightarrow> bool" where
  "unrecognized resource_type =
     (resource_type \<notin> set (map JStr [''aws_instance'', ''aws_launch_template'',
        ''aws_db_instance'', ''aws_lb'', ''aws_alb'', ''aws_nat_gateway'']))"

text \<open>A plan file that holds just the list of changes.\<close>

definition plan_of :: "json list \<Rightarrow> plan_file" where
  "plan_of entries = Document (JObj [(''resource_changes'', JArr entries)])"

text \<open>A price-list entry of the shape the pricing service delivers, for the price \<open>d\<close>.\<close>

definition pdict1 :: "string \<Rightarrow> pvalue \<Rightarrow> pvalue" where
  "pdict1 k v = PDict [(k, v)]"

definition price_document :: "decimal \<Rightarrow> price_text" where
  "price_document d =
     Decoded (pdict1 ''terms'' (pdict1 ''OnDemand'' (pdict1 ''JRTCKXETXF''
       (pdict1 ''priceDimensions'' (pdict1 ''6YS6EN2CT7''
         (pdict1 ''pricePerUnit'' (pdict1 ''USD'' (PLeaf (Some d)))))))))"

text \<open>A small catalog: it answers by service code and by the value of the first filter,
  raises for the name \<^verbatim>\<open>down\<close>, and has no match for a name it does not know.\<close>

definition sample_prices :: "((string \<times> string) \<times> decimal) list" where
  "sample_prices =
     [((''AmazonEC2'', ''t3.micro''), Finite False 108000000 (- 10)),
      ((''AmazonEC2'', ''t3.small''), Finite False 216000000 (- 10)),
      ((''AmazonEC2'', ''free''), Finite False 0 (- 10)),
      ((''AmazonEC2'', ''credit''), Finite True 5000000 (- 10)),
      ((''AmazonRDS'', ''db.t3.micro''), Finite False 180000000 (- 10)),
      ((''AmazonRDS'', ''db.free''), Finite True 0 0),
      ((''AmazonRDS'', ''db.long''), Finite False 9999999999999999999999999999 (- 28))]"

definition sample_client :: "request \<Rightarrow> response" where
  "sample_client req =
     (case req of (service, filters, max_results) \<Rightarrow>
        (case filters of
           [] \<Rightarrow> Raised
         | f # _ \<Rightarrow>
             if snd (snd f) = ''down'' then Raised
             else (case map_of sample_prices (service, snd (snd f)) of
                     None \<Rightarrow> Response []
                   | Some d \<Rightarrow> Response [price_document d])))"

definition sample_estimator :: estimator where
  "sample_estimator = \<lparr>region = ''eu-north-1'', pricing_client = sample_client\<rparr>"

text \<open>An outcome with its inventory replaced.\<close>

definition set_resources :: "resources \<Rightarrow> error + estimate \<Rightarrow> error + estimate" where
  "set_resources res outcome =
     (case outcome of Inl e \<Rightarrow> Inl e | Inr r \<Rightarrow> Inr (r\<lparr>resources := res\<rparr>))"

text \<open>A lookup that gives no price the loops could add: none at all, or a zero.\<close>

definition unpriced :: "decimal option \<Rightarrow> bool" where
  "unpriced p = (case p of None \<Rightarrow> True | Some d \<Rightarrow> is_zero d)"


text \<open>The breakdown lines of an outcome; none when the run ended with an exception.\<close>

definition breakdown_of :: "error + estimate \<Rightarrow> string list" where
  "breakdown_of outcome = (case outcome of Inl e \<Rightarrow> [] | Inr r \<Rightarrow> breakdown r)"

text \<open>A change entry that adds nothing priceable: a pure deletion, an entry of a type the
  parser does not know, or a compute or database entry whose identifier is missing or
  empty or has no price the loops could add.\<close>

definition unpriceable :: "estimator \<Rightarrow> json \<Rightarrow> bool" where
  "unpriceable self change =
     (case entry_parts change of
        None \<Rightarrow> False
      | Some (resource_type, change_action, after) \<Rightarrow>
          change_action = JArr [JStr ''delete'']
          \<or> unrecognized resource_type
          \<or> (resource_type \<in> {JStr ''aws_instance'', JStr ''aws_launch_template''}
              \<and> (case dict_get after ''instance_type'' JNull of
                    Inl e \<Rightarrow> False
                  | Inr t \<Rightarrow> truthy t \<longrightarrow> unpriced (get_ec2_price self t)))
          \<or> (resource_type = JStr ''aws_db_instance''
              \<and> (case dict_get after ''instance_class'' JNull of
                    Inl e \<Rightarrow> False
                  | Inr t \<Rightarrow> truthy t \<longrightarrow> unpriced (get_rds_price self t))))"

text \<open>An inventory in which no compute or database item has a price the loops could add.\<close>

definition no_priced_items :: "estimator \<Rightarrow> resources \<Rightarrow> bool" where
  "no_priced_items self res =
     ((\<forall>t\<in>set (ec2_instances res). unpriced (get_ec2_price self t))
      \<and> (\<forall>t\<in>set (rds_instances res). unpriced (get_rds_price self t)))"

section \<open>Evaluation and structure lemmas\<close>

lemma ebind_Inr [simp]: "ebind (Inr v) f = f v"
  by (simp add: ebind_def)

lemma ebind_Inl [simp]: "ebind (Inl e) f = Inl e"
  by (simp add: ebind_def)

lemma ndigits_numeral [simp]:
  "ndigits (numeral k) = (if numeral k < (10::nat) then 1 else Suc (ndigits (numeral k div 10)))"
  by (rule ndigits.simps)

lemma ndigits_0 [simp]: "ndigits 0 = 1"
  by (simp add: ndigits.simps)

lemma ndigits_1 [simp]: "ndigits (Suc 0) = 1"
  by (simp add: ndigits.simps)

lemma digits_numeral [simp]:
  "digits (numeral k) = (if numeral k < (10::nat) then [digit_char (numeral k)]
     else digits (numeral k div 10) @ [digit_char (numeral k mod 10)])"
  by (rule digits.simps)

lemma digits_0 [simp]: "digits 0 = ''0''"
  by (simp add: digits.simps digit_char_def)

lemma digits_1 [simp]: "digits (Suc 0) = ''1''"
  by (simp add: digits.simps digit_char_def)

lemma bit_length_numeral [simp]:
  "bit_length (numeral k) = Suc (bit_length (numeral k div 2))"
  by (subst bit_length.simps) simp

lemma bit_length_0 [simp]: "bit_length 0 = 0"
  by (simp add: bit_length.simps)

lemma bit_length_1 [simp]: "bit_length (Suc 0) = 1"
  by (simp add: bit_length.simps)

lemma replicate_numeral: "replicate (numeral k) x = x # replicate (pred_numeral k) x"
  by (simp add: numeral_eq_Suc)

lemmas dec_defs = dec_of_int_def scaled_def round_half_even_def rescale2_def prec_def Etiny_def
  Etop_def Emax_def Emin_def digit_char_def sign_str_def exp_str_def payload_str_def Let_def
  replicate_numeral

lemmas float_defs = binary64_def round_to_unit_def pack_def significand_def binary_exponent_def
  above_power_def round_ratio_def sign_bit_def float_format_2f_def format_fields_def
  format_finite_def two_decimals_def total_line_def Let_def

lemmas agg_defs = aggregate_def add_subtotal_def add_flat_def get_alb_price_def
  get_nat_gateway_price_def

lemmas lookup_defs = get_ec2_price_def get_rds_price_def get_products_def ec2_request_def
  rds_request_def region_to_location_def sample_estimator_def sample_client_def sample_prices_def
  price_document_def pdict1_def read_price_def json_loads_def catch_all_def

lemma entry_parts_change_entry [simp]:
  "entry_parts (change_entry rt acts after) = Some (rt, acts, after)"
  by (simp add: entry_parts_def change_entry_def)

lemma process_change_parts:
  "entry_parts change = Some (rt, acts, after) \<Longrightarrow>
   process_change res change =
     (if acts = JArr [JStr ''delete''] then Inr res else classify res rt after)"
  by (auto simp: entry_parts_def process_change_def split: sum.splits)

lemma process_change_entry:
  "process_change res (change_entry rt acts after) =
     (if acts = JArr [JStr ''delete''] then Inr res else classify res rt after)"
  by (simp add: process_change_parts)

lemma parse_loop_append:
  "parse_loop res (xs @ ys) = ebind (parse_loop res xs) (\<lambda>res'. parse_loop res' ys)"
  by (induction xs arbitrary: res) (auto split: sum.splits)

lemma parse_document:
  "map_of kvs ''resource_changes'' = Some (JArr entries) \<Longrightarrow>
   parse_terraform_plan (Document (JObj kvs)) = parse_loop empty_resources entries"
  by (simp add: parse_terraform_plan_def)

lemma parse_plan_of:
  "parse_terraform_plan (plan_of entries) = parse_loop empty_resources entries"
  by (simp add: parse_terraform_plan_def plan_of_def)


lemma classify_unrecognized: "unrecognized rt \<Longrightarrow> classify res rt after = Inr res"
  by (simp add: unrecognized_def classify_def)

lemma process_change_unrecognized:
  "entry_parts change = Some (rt, acts, after) \<Longrightarrow> unrecognized rt \<Longrightarrow>
   process_change res change = Inr res"
  by (simp add: process_change_parts classify_unrecognized)

lemma parse_loop_delete_only:
  "list_all delete_only entries \<Longrightarrow> parse_loop res entries = Inr res"
proof (induction entries)
  case Nil
  then show ?case by simp
next
  case (Cons c cs)
  from Cons.prems obtain rt after where "entry_parts c = Some (rt, JArr [JStr ''delete''], after)"
    by (auto simp: delete_only_def split: option.splits)
  then have "process_change res c = Inr res"
    by (simp add: process_change_parts)
  with Cons show ?case by simp
qed

lemma aggregate_empty:
  "aggregate self empty_resources =
     Inr \<lparr>monthly_cost = 0, breakdown = [], resources = empty_resources\<rparr>"
  by (simp add: agg_defs empty_resources_def dec_defs float_defs)

section \<open>The price loops and the aggregation\<close>

lemma set_resources_simps [simp]:
  "set_resources res (Inl e) = Inl e"
  "set_resources res (Inr r) = Inr (r\<lparr>resources := res\<rparr>)"
  by (simp_all add: set_resources_def)

lemma set_resources_ebind:
  "set_resources res (ebind m f) = ebind m (\<lambda>x. set_resources res (f x))"
  by (cases m) simp_all

lemma price_loop_append:
  "price_loop g l (xs @ ys) st = ebind (price_loop g l xs st) (price_loop g l ys)"
proof (induction xs arbitrary: st)
  case Nil
  then show ?case by simp
next
  case (Cons x xs)
  show ?case
  proof (cases "g x")
    case None
    with Cons show ?thesis by simp
  next
    case (Some p)
    with Cons show ?thesis
      by (cases "dec_add (fst st) p") simp_all
  qed
qed

lemma dec_bool_is_zero: "dec_bool d = (\<not> is_zero d)"
  by (cases d) simp_all

lemma price_loop_skip:
  "unpriced (g t) \<Longrightarrow> price_loop g l (t # rest) st = price_loop g l rest st"
  by (auto simp: unpriced_def dec_bool_is_zero split: option.splits)

lemma price_loop_skip_middle:
  assumes "unpriced (g t)"
  shows "price_loop g l (xs @ t # ys) st = price_loop g l (xs @ ys) st"
proof -
  have "price_loop g l (t # ys) = price_loop g l ys"
    by (rule ext) (rule price_loop_skip [of g t, OF assms])
  then show ?thesis
    by (simp add: price_loop_append)
qed

lemma price_loop_cong:
  "(\<forall>t\<in>set xs. g1 t = g2 t) \<Longrightarrow> price_loop g1 l xs st = price_loop g2 l xs st"
proof (induction xs arbitrary: st)
  case Nil
  then show ?case by simp
next
  case (Cons x xs)
  then have "g1 x = g2 x" and "\<forall>t\<in>set xs. g1 t = g2 t"
    by simp_all
  with Cons.IH show ?case
    by (cases "g2 x") (simp_all cong: if_cong)
qed

lemma aggregate_ec2_skip:
  assumes "unpriced (get_ec2_price self t)"
  shows "aggregate self (res\<lparr>ec2_instances := xs @ t # ys\<rparr>) =
           set_resources (res\<lparr>ec2_instances := xs @ t # ys\<rparr>)
             (aggregate self (res\<lparr>ec2_instances := xs @ ys\<rparr>))"
  using assms price_loop_skip_middle [where g = "get_ec2_price self" and t = t and xs = xs and ys = ys]
  by (simp add: aggregate_def set_resources_ebind)

lemma aggregate_rds_skip:
  assumes "unpriced (get_rds_price self t)"
  shows "aggregate self (res\<lparr>rds_instances := xs @ t # ys\<rparr>) =
           set_resources (res\<lparr>rds_instances := xs @ t # ys\<rparr>)
             (aggregate self (res\<lparr>rds_instances := xs @ ys\<rparr>))"
  using assms price_loop_skip_middle [where g = "get_rds_price self" and t = t and xs = xs and ys = ys]
  by (simp add: aggregate_def set_resources_ebind)

lemma aggregate_cong:
  assumes "\<forall>t\<in>set (ec2_instances res). get_ec2_price s1 t = get_ec2_price s2 t"
    and "\<forall>t\<in>set (rds_instances res). get_rds_price s1 t = get_rds_price s2 t"
  shows "aggregate s1 res = aggregate s2 res"
  using price_loop_cong [OF assms(1)] price_loop_cong [OF assms(2)]
  by (simp add: aggregate_def)

lemma aggregate_resources: "aggregate self res = Inr r \<Longrightarrow> resources r = res"
  by (auto simp: aggregate_def ebind_def split: sum.splits)

lemma price_loop_effective:
  assumes "\<And>x. x \<in> set xs \<Longrightarrow> g1 x = g2 x \<or> (unpriced (g1 x) \<and> unpriced (g2 x))"
  shows "price_loop g1 l xs st = price_loop g2 l xs st"
  using assms
proof (induction xs arbitrary: st)
  case Nil
  then show ?case by simp
next
  case (Cons x xs)
  have rest: "price_loop g1 l xs st' = price_loop g2 l xs st'" for st'
    by (rule Cons.IH) (simp add: Cons.prems)
  from Cons.prems [of x] consider "g1 x = g2 x" | "unpriced (g1 x)" "unpriced (g2 x)"
    by auto
  then show ?case
  proof cases
    case 1
    then show ?thesis
      by (cases "g2 x") (simp_all add: rest cong: if_cong)
  next
    case 2
    then show ?thesis
      by (simp only: price_loop_skip rest)
  qed
qed

section \<open>Plans with a single load balancer\<close>

lemma unpriceable_cases:
  assumes "unpriceable self x"
  obtains rt acts after where "entry_parts x = Some (rt, acts, after)"
    and "acts = JArr [JStr ''delete''] \<or> unrecognized rt
         \<or> ((rt = JStr ''aws_instance'' \<or> rt = JStr ''aws_launch_template'')
              \<and> (\<exists>t. dict_get after ''instance_type'' JNull = Inr t
                    \<and> (truthy t \<longrightarrow> unpriced (get_ec2_price self t))))
         \<or> (rt = JStr ''aws_db_instance''
              \<and> (\<exists>t. dict_get after ''instance_class'' JNull = Inr t
                    \<and> (truthy t \<longrightarrow> unpriced (get_rds_price self t))))"
proof (cases "entry_parts x")
  case None
  with assms show ?thesis by (simp add: unpriceable_def)
next
  case (Some parts)
  obtain rt acts after where p: "parts = (rt, acts, after)"
    by (cases parts) 
  from assms Some p have
    "acts = JArr [JStr ''delete''] \<or> unrecognized rt
          \<or> (rt \<in> {JStr ''aws_instance'', JStr ''aws_launch_template''}
              \<and> (case dict_get after ''instance_type'' JNull of
                    Inl e \<Rightarrow> False
                  | Inr t \<Rightarrow> truthy t \<longrightarrow> unpriced (get_ec2_price self t)))
          \<or> (rt = JStr ''aws_db_instance''
              \<and> (case dict_get after ''instance_class'' JNull of
                    Inl e \<Rightarrow> False
                  | Inr t \<Rightarrow> truthy t \<longrightarrow> unpriced (get_rds_price self t)))"
    by (simp add: unpriceable_def)
  then have "acts = JArr [JStr ''delete''] \<or> unrecognized rt
         \<or> ((rt = JStr ''aws_instance'' \<or> rt = JStr ''aws_launch_template'')
              \<and> (\<exists>t. dict_get after ''instance_type'' JNull = Inr t
                    \<and> (truthy t \<longrightarrow> unpriced (get_ec2_price self t))))
         \<or> (rt = JStr ''aws_db_instance''
              \<and> (\<exists>t. dict_get after ''instance_class'' JNull = Inr t
                    \<and> (truthy t \<longrightarrow> unpriced (get_rds_price self t))))"
    by (cases "dict_get after ''instance_type'' JNull"; cases "dict_get after ''instance_class'' JNull")
       (simp_all only: sum.case insert_iff empty_iff sum.inject simp_thms ex_simps, blast+)
  with Some p that show ?thesis by blast
qed


lemma process_change_unpriceable:
  assumes "unpriceable self x"
  shows "\<exists>res'. process_change res x = Inr res' \<and> albs res' = albs res
           \<and> nat_gateways res' = nat_gateways res
           \<and> (no_priced_items self res \<longrightarrow> no_priced_items self res')"
proof -
  from assms obtain rt acts after where parts: "entry_parts x = Some (rt, acts, after)"
    and kinds: "acts = JArr [JStr ''delete''] \<or> unrecognized rt
         \<or> ((rt = JStr ''aws_instance'' \<or> rt = JStr ''aws_launch_template'')
              \<and> (\<exists>t. dict_get after ''instance_type'' JNull = Inr t
                    \<and> (truthy t \<longrightarrow> unpriced (get_ec2_price self t))))
         \<or> (rt = JStr ''aws_db_instance''
              \<and> (\<exists>t. dict_get after ''instance_class'' JNull = Inr t
                    \<and> (truthy t \<longrightarrow> unpriced (get_rds_price self t))))"
    by (rule unpriceable_cases)
  show ?thesis
  proof (cases "acts = JArr [JStr ''delete'']")
    case True
    with parts show ?thesis by (simp add: process_change_parts)
  next
    case False
    then have step: "process_change res x = classify res rt after"
      using parts by (simp add: process_change_parts)
    from kinds False consider
        (unk) "unrecognized rt"
      | (ec2) t where "rt = JStr ''aws_instance'' \<or> rt = JStr ''aws_launch_template''"
          "dict_get after ''instance_type'' JNull = Inr t"
          "truthy t \<longrightarrow> unpriced (get_ec2_price self t)"
      | (rds) t where "rt = JStr ''aws_db_instance''"
          "dict_get after ''instance_class'' JNull = Inr t"
          "truthy t \<longrightarrow> unpriced (get_rds_price self t)"
      by blast
    then show ?thesis
    proof cases
      case unk
      then show ?thesis by (simp add: step classify_unrecognized)
    next
      case ec2
      from ec2(1,2) have "classify res rt after
          = Inr (if truthy t then res\<lparr>ec2_instances := ec2_instances res @ [t]\<rparr> else res)"
        by (auto simp: classify_def)
      with ec2(3) show ?thesis
        by (simp add: step no_priced_items_def)
    next
      case rds
      from rds(1,2) have "classify res rt after
          = Inr (if truthy t then res\<lparr>rds_instances := rds_instances res @ [t]\<rparr> else res)"
        by (simp add: classify_def)
      with rds(3) show ?thesis
        by (simp add: step no_priced_items_def)
    qed
  qed
qed

lemma parse_loop_unpriceable:
  assumes "\<forall>x\<in>set xs. unpriceable self x"
  shows "\<exists>res'. parse_loop res xs = Inr res' \<and> albs res' = albs res
           \<and> nat_gateways res' = nat_gateways res
           \<and> (no_priced_items self res \<longrightarrow> no_priced_items self res')"
  using assms
proof (induction xs arbitrary: res)
  case Nil
  then show ?case by simp
next
  case (Cons x xs)
  then have "unpriceable self x" and rest: "\<forall>x\<in>set xs. unpriceable self x"
    by simp_all
  then obtain r1 where r1: "process_change res x = Inr r1" "albs r1 = albs res"
      "nat_gateways r1 = nat_gateways res" "no_priced_items self res \<longrightarrow> no_priced_items self r1"
    using process_change_unpriceable [of self x res] by blast
  from Cons.IH [OF rest, of r1] obtain r2 where "parse_loop r1 xs = Inr r2" "albs r2 = albs r1"
      "nat_gateways r2 = nat_gateways r1" "no_priced_items self r1 \<longrightarrow> no_priced_items self r2"
    by blast
  with r1 show ?case by simp
qed

lemma price_loop_unpriced:
  "\<forall>t\<in>set xs. unpriced (g t) \<Longrightarrow> price_loop g l xs st = Inr st"
  by (induction xs) (simp_all add: price_loop_skip del: price_loop.simps(2))

lemma add_subtotal_zero: "add_subtotal l (dec_of_int 0) st = Inr st"
  by (simp add: add_subtotal_def dec_of_int_def scaled_def)

lemma add_flat_none: "add_flat l note p 0 st = Inr st"
  by (simp add: add_flat_def)

lemma alb_monthly_one:
  "add_flat ''ALB'' ''excluding LCU'' get_alb_price 1 (dec_of_int 0, bd)
     = Inr (Finite False 164250 (- 4), bd @ [''ALB (1x): $16.42/month (excluding LCU)''])"
  by (simp add: add_flat_def get_alb_price_def dec_defs)

lemma float_of_alb_monthly:
  "float_of_decimal (Finite False 164250 (- 4)) = Inr 0x40306CCCCCCCCCCD"
  by (simp add: float_defs)

lemma total_line_alb_monthly:
  "float_format_2f 0x40306CCCCCCCCCCD = ''16.43''"
  by (simp add: float_defs dec_defs)

lemma aggregate_one_alb:
  assumes "no_priced_items self res" and "albs res = 1" and "nat_gateways res = 0"
  shows "aggregate self res =
    Inr \<lparr>monthly_cost = 0x40306CCCCCCCCCCD,
         breakdown = [''ALB (1x): $16.42/month (excluding LCU)''], resources = res\<rparr>"
proof -
  from assms(1) have ec2: "price_loop (get_ec2_price self) ''EC2 '' (ec2_instances res) st = Inr st"
    and rds: "price_loop (get_rds_price self) ''RDS '' (rds_instances res) st = Inr st" for st
    by (simp_all add: no_priced_items_def price_loop_unpriced)
  show ?thesis
    unfolding aggregate_def assms(2,3) ec2 rds ebind_Inr fst_conv snd_conv add_subtotal_zero
      add_flat_none alb_monthly_one float_of_alb_monthly
    by simp
qed

section \<open>Plans that only destroy\<close>

text \<open>
  Claim C2. For every plan in which the action list of each entry of
  \<^verbatim>\<open>resource_changes\<close> is exactly \<^verbatim>\<open>['delete']\<close>, the estimate has
  \<^verbatim>\<open>monthly_cost\<close> equal to 0, an empty breakdown, and an empty inventory.
\<close>

theorem delete_only_plan_costs_nothing:
  "map_of kvs ''resource_changes'' = Some (JArr entries) \<Longrightarrow> list_all delete_only entries \<Longrightarrow>
   estimate_cost self (Document (JObj kvs)) =
     Inr \<lparr>monthly_cost = 0, breakdown = [], resources = empty_resources\<rparr>"
  by (simp add: estimate_cost_def parse_document parse_loop_delete_only aggregate_empty)

theorem delete_only_plan_costs_nothing_witness:
  "map_of [(''format_version'', JStr ''1.2''),
           (''resource_changes'',
             JArr [change_entry (JStr ''aws_instance'') (JArr [JStr ''delete'']) JNull,
                   change_entry (JStr ''aws_lb'') (JArr [JStr ''delete'']) JNull])]
     ''resource_changes''
     = Some (JArr [change_entry (JStr ''aws_instance'') (JArr [JStr ''delete'']) JNull,
                   change_entry (JStr ''aws_lb'') (JArr [JStr ''delete'']) JNull])
   \<and> list_all delete_only [change_entry (JStr ''aws_instance'') (JArr [JStr ''delete'']) JNull,
                   change_entry (JStr ''aws_lb'') (JArr [JStr ''delete'']) JNull]
   \<and> estimate_cost sample_estimator
        (Document (JObj [(''format_version'', JStr ''1.2''),
           (''resource_changes'',
             JArr [change_entry (JStr ''aws_instance'') (JArr [JStr ''delete'']) JNull,
                   change_entry (JStr ''aws_lb'') (JArr [JStr ''delete'']) JNull])]))
       = Inr \<lparr>monthly_cost = 0, breakdown = [], resources = empty_resources\<rparr>"
  using delete_only_plan_costs_nothing
    [of "[(''format_version'', JStr ''1.2''),
           (''resource_changes'',
             JArr [change_entry (JStr ''aws_instance'') (JArr [JStr ''delete'']) JNull,
                   change_entry (JStr ''aws_lb'') (JArr [JStr ''delete'']) JNull])]"
        "[change_entry (JStr ''aws_instance'') (JArr [JStr ''delete'']) JNull,
                   change_entry (JStr ''aws_lb'') (JArr [JStr ''delete'']) JNull]" sample_estimator]
  by (simp add: delete_only_def)

section \<open>Skipping and classifying entries\<close>



text \<open>
  Claim C7. A change entry whose type tag is none of \<^verbatim>\<open>aws_instance\<close>,
  \<^verbatim>\<open>aws_launch_template\<close>, \<^verbatim>\<open>aws_db_instance\<close>, \<^verbatim>\<open>aws_lb\<close>, \<^verbatim>\<open>aws_alb\<close> and
  \<^verbatim>\<open>aws_nat_gateway\<close> leaves the resources as they are, and a plan with such an
  entry anywhere in it has the estimate of the plan without the entry: the same monthly
  cost, the same breakdown and the same inventory.
\<close>

theorem unknown_kind_dropped:
  "entry_parts change = Some (rt, acts, after) \<Longrightarrow> unrecognized rt \<Longrightarrow>
   process_change res change = Inr res
   \<and> estimate_cost self (plan_of (before @ [change] @ rest))
       = estimate_cost self (plan_of (before @ rest))"
  by (simp add: estimate_cost_def parse_plan_of parse_loop_append process_change_unrecognized)

theorem unknown_kind_dropped_witness:
  "entry_parts (change_entry (JStr ''aws_s3_bucket'') (JArr [JStr ''create'']) (JObj []))
     = Some (JStr ''aws_s3_bucket'', JArr [JStr ''create''], JObj [])
   \<and> unrecognized (JStr ''aws_s3_bucket'')
   \<and> process_change empty_resources
        (change_entry (JStr ''aws_s3_bucket'') (JArr [JStr ''create'']) (JObj []))
       = Inr empty_resources
   \<and> estimate_cost sample_estimator
        (plan_of [change_entry (JStr ''aws_s3_bucket'') (JArr [JStr ''create'']) (JObj [])])
       = Inr \<lparr>monthly_cost = 0, breakdown = [], resources = empty_resources\<rparr>"
  using unknown_kind_dropped
    [of "change_entry (JStr ''aws_s3_bucket'') (JArr [JStr ''create'']) (JObj [])"
        "JStr ''aws_s3_bucket''" "JArr [JStr ''create'']" "JObj []" empty_resources
        sample_estimator "[]" "[]"]
  by (simp add: unrecognized_def estimate_cost_def parse_plan_of aggregate_empty)

text \<open>
  Claim C9. The type tag \<^verbatim>\<open>aws_alb\<close> is treated as \<^verbatim>\<open>aws_lb\<close> is: the
  classification adds exactly one to the load balancer count, whatever the attributes
  are, and an entry with the one tag is processed as the entry with the other tag and any
  other attributes is (both are skipped when the action list is \<^verbatim>\<open>['delete']\<close>).
\<close>

theorem alb_counted_as_lb:
  "classify res (JStr ''aws_alb'') after = Inr (res\<lparr>albs := albs res + 1\<rparr>)
   \<and> classify res (JStr ''aws_lb'') after' = Inr (res\<lparr>albs := albs res + 1\<rparr>)
   \<and> process_change res (change_entry (JStr ''aws_alb'') acts after)
       = process_change res (change_entry (JStr ''aws_lb'') acts after')
   \<and> (acts \<noteq> JArr [JStr ''delete''] \<longrightarrow>
        process_change res (change_entry (JStr ''aws_alb'') acts after)
          = Inr (res\<lparr>albs := albs res + 1\<rparr>))"
  by (simp add: process_change_entry classify_def)

theorem alb_counted_as_lb_witness:
  "JArr [JStr ''create''] \<noteq> JArr [JStr ''delete'']
   \<and> process_change empty_resources
        (change_entry (JStr ''aws_alb'') (JArr [JStr ''create''])
           (JObj [(''instance_type'', JStr ''t3.micro'')]))
       = Inr (empty_resources\<lparr>albs := 1\<rparr>)
   \<and> process_change empty_resources
        (change_entry (JStr ''aws_lb'') (JArr [JStr ''create'']) JNull)
       = Inr (empty_resources\<lparr>albs := 1\<rparr>)"
  using alb_counted_as_lb
    [of empty_resources "JObj [(''instance_type'', JStr ''t3.micro'')]" JNull
        "JArr [JStr ''create'']"]
  by (simp add: empty_resources_def process_change_entry classify_def)

section \<open>The load balancer line\<close>

text \<open>
  Claim C1, as the specification states it: for a plan with exactly one change of type
  \<^verbatim>\<open>aws_lb\<close> and nothing else priceable, the breakdown has an ALB line whose monthly
  value is \<open>0.0225 \<times> 730 = 16.43\<close>, rounded to two decimals. The line of the breakdown
  does not say 16.43: the product is the decimal 16.4250, and \<^verbatim>\<open>f"{alb_monthly:.2f}"\<close>
  rounds a decimal with the rounding of the context, half to even, which gives 16.42. The
  returned \<^verbatim>\<open>monthly_cost\<close> is the double nearest to 16.425, with the bits
  \<open>0x40306CCCCCCCCCCD\<close>.
\<close>

theorem alb_line_counterexample:
  "estimate_cost sample_estimator
     (plan_of [change_entry (JStr ''aws_lb'') (JArr [JStr ''create'']) (JObj [])])
     = Inr \<lparr>monthly_cost = 0x40306CCCCCCCCCCD,
            breakdown = [''ALB (1x): $16.42/month (excluding LCU)''],
            resources = empty_resources\<lparr>albs := 1\<rparr>\<rparr>
   \<and> ''ALB (1x): $16.43/month (excluding LCU)''
       \<notin> set (breakdown_of (estimate_cost sample_estimator
             (plan_of [change_entry (JStr ''aws_lb'') (JArr [JStr ''create'']) (JObj [])])))"
  by (simp add: estimate_cost_def parse_plan_of process_change_entry classify_def
        empty_resources_def aggregate_one_alb no_priced_items_def breakdown_of_def)

text \<open>
  Claim C1, amended. Take a plan document in which one change has the type \<^verbatim>\<open>aws_lb\<close>
  and is not a pure deletion, and in which no other change is priceable: every other change
  is a pure deletion, or has a type the parser does not know, or is a compute or database
  change whose identifier is missing or empty or resolves to no price or to a zero. Then
  the run completes, the inventory counts one load balancer and no NAT gateway, and the
  breakdown is the single line \<^verbatim>\<open>ALB (1x): $16.42/month (excluding LCU)\<close>: the
  decimal product \<open>0.0225 \<times> 730 = 16.4250\<close> written with two decimals, half rounded to
  even. The returned \<^verbatim>\<open>monthly_cost\<close> is that decimal converted to a double, which
  lies above 16.425, so the total line of the report says \<^verbatim>\<open>$16.43\<close>.
\<close>

theorem alb_line_rounds_half_even:
  assumes "map_of kvs ''resource_changes'' = Some (JArr (before @ [change] @ rest))"
    and "entry_parts change = Some (JStr ''aws_lb'', acts, after)"
    and "acts \<noteq> JArr [JStr ''delete'']"
    and "\<forall>x\<in>set (before @ rest). unpriceable self x"
  shows "\<exists>r. estimate_cost self (Document (JObj kvs)) = Inr r
    \<and> breakdown r = [''ALB (1x): $16.42/month (excluding LCU)'']
    \<and> monthly_cost r = 0x40306CCCCCCCCCCD
    \<and> total_line r = ''**Estimated Monthly Cost**: $16.43''
    \<and> albs (resources r) = 1 \<and> nat_gateways (resources r) = 0
    \<and> dec_mul get_alb_price (dec_of_int 730) = Inr (Finite False 164250 (- 4))
    \<and> dec_format_2f (Finite False 164250 (- 4)) = ''16.42''
    \<and> float_of_decimal (Finite False 164250 (- 4)) = Inr (monthly_cost r)"
proof -
  from assms(4) have b: "\<forall>x\<in>set before. unpriceable self x" and r: "\<forall>x\<in>set rest. unpriceable self x"
    by simp_all
  have q0: "no_priced_items self empty_resources"
    by (simp add: no_priced_items_def empty_resources_def)
  from parse_loop_unpriceable [OF b, of empty_resources] q0 obtain r1
    where r1: "parse_loop empty_resources before = Inr r1" "albs r1 = 0" "nat_gateways r1 = 0"
      "no_priced_items self r1"
    by (auto simp: empty_resources_def)
  from assms(2,3) have step: "process_change r1 change = Inr (r1\<lparr>albs := albs r1 + 1\<rparr>)"
    by (simp add: process_change_parts classify_def)
  from r1 have q2: "no_priced_items self (r1\<lparr>albs := albs r1 + 1\<rparr>)"
    by (simp add: no_priced_items_def)
  from parse_loop_unpriceable [OF r, of "r1\<lparr>albs := albs r1 + 1\<rparr>"] q2 r1 obtain r2
    where r2: "parse_loop (r1\<lparr>albs := albs r1 + 1\<rparr>) rest = Inr r2" "albs r2 = 1"
      "nat_gateways r2 = 0" "no_priced_items self r2"
    by auto
  from r1(1) step r2(1) have parse: "parse_terraform_plan (Document (JObj kvs)) = Inr r2"
    by (simp add: parse_document [OF assms(1)] parse_loop_append)
  have agg: "aggregate self r2 =
    Inr \<lparr>monthly_cost = 0x40306CCCCCCCCCCD,
         breakdown = [''ALB (1x): $16.42/month (excluding LCU)''], resources = r2\<rparr>"
    using r2(4,2,3) by (rule aggregate_one_alb)
  let ?r = "\<lparr>monthly_cost = 0x40306CCCCCCCCCCD,
         breakdown = [''ALB (1x): $16.42/month (excluding LCU)''], resources = r2\<rparr>"
  have run: "estimate_cost self (Document (JObj kvs)) = Inr ?r"
    by (simp add: estimate_cost_def parse agg)
  have lines: "breakdown ?r = [''ALB (1x): $16.42/month (excluding LCU)'']"
    and cost: "monthly_cost ?r = 0x40306CCCCCCCCCCD"
    and counts: "albs (resources ?r) = 1" "nat_gateways (resources ?r) = 0"
    by (simp_all add: r2)
  have total: "total_line ?r = ''**Estimated Monthly Cost**: $16.43''"
    by (simp add: total_line_def total_line_alb_monthly)
  have mul: "dec_mul get_alb_price (dec_of_int 730) = Inr (Finite False 164250 (- 4))"
    by (simp add: get_alb_price_def dec_defs)
  have fmt: "dec_format_2f (Finite False 164250 (- 4)) = ''16.42''"
    by (simp add: dec_defs)
  have flt: "float_of_decimal (Finite False 164250 (- 4)) = Inr (monthly_cost ?r)"
    by (simp only: cost float_of_alb_monthly)
  show ?thesis
    by (rule exI [of _ ?r]) (intro conjI run lines cost counts total mul fmt flt)
qed

theorem alb_line_rounds_half_even_witness:
  "map_of [(''resource_changes'',
      JArr [change_entry (JStr ''aws_s3_bucket'') (JArr [JStr ''create'']) (JObj []),
            change_entry (JStr ''aws_lb'') (JArr [JStr ''update''])
              (JObj [(''name'', JStr ''web'')]),
            change_entry (JStr ''aws_instance'') (JArr [JStr ''create''])
              (JObj [(''instance_type'', JStr ''m9.mystery'')])])] ''resource_changes''
     = Some (JArr ([change_entry (JStr ''aws_s3_bucket'') (JArr [JStr ''create'']) (JObj [])]
          @ [change_entry (JStr ''aws_lb'') (JArr [JStr ''update''])
              (JObj [(''name'', JStr ''web'')])]
          @ [change_entry (JStr ''aws_instance'') (JArr [JStr ''create''])
              (JObj [(''instance_type'', JStr ''m9.mystery'')])]))
   \<and> JArr [JStr ''update''] \<noteq> JArr [JStr ''delete'']
   \<and> unpriceable sample_estimator
        (change_entry (JStr ''aws_s3_bucket'') (JArr [JStr ''create'']) (JObj []))
   \<and> unpriceable sample_estimator
        (change_entry (JStr ''aws_instance'') (JArr [JStr ''create''])
              (JObj [(''instance_type'', JStr ''m9.mystery'')]))
   \<and> estimate_cost sample_estimator
       (Document (JObj [(''resource_changes'',
      JArr [change_entry (JStr ''aws_s3_bucket'') (JArr [JStr ''create'']) (JObj []),
            change_entry (JStr ''aws_lb'') (JArr [JStr ''update''])
              (JObj [(''name'', JStr ''web'')]),
            change_entry (JStr ''aws_instance'') (JArr [JStr ''create''])
              (JObj [(''instance_type'', JStr ''m9.mystery'')])])]))
     = Inr \<lparr>monthly_cost = 0x40306CCCCCCCCCCD,
            breakdown = [''ALB (1x): $16.42/month (excluding LCU)''],
            resources = \<lparr>ec2_instances = [JStr ''m9.mystery''], rds_instances = [],
                          albs = 1, nat_gateways = 0\<rparr>\<rparr>"
  using alb_line_rounds_half_even
    [where kvs = "[(''resource_changes'',
      JArr [change_entry (JStr ''aws_s3_bucket'') (JArr [JStr ''create'']) (JObj []),
            change_entry (JStr ''aws_lb'') (JArr [JStr ''update''])
              (JObj [(''name'', JStr ''web'')]),
            change_entry (JStr ''aws_instance'') (JArr [JStr ''create''])
              (JObj [(''instance_type'', JStr ''m9.mystery'')])])]"
       and before = "[change_entry (JStr ''aws_s3_bucket'') (JArr [JStr ''create'']) (JObj [])]"
       and change = "change_entry (JStr ''aws_lb'') (JArr [JStr ''update''])
              (JObj [(''name'', JStr ''web'')])"
       and rest = "[change_entry (JStr ''aws_instance'') (JArr [JStr ''create''])
              (JObj [(''instance_type'', JStr ''m9.mystery'')])]"
       and acts = "JArr [JStr ''update'']" and after = "JObj [(''name'', JStr ''web'')]"
       and self = sample_estimator]
  by (auto simp: unpriceable_def unrecognized_def unpriced_def lookup_defs
        estimate_cost_def parse_terraform_plan_def process_change_entry classify_def
        empty_resources_def aggregate_one_alb no_priced_items_def)

section \<open>Items without a usable price\<close>

text \<open>
  Claim C4. Take a compute change (type \<^verbatim>\<open>aws_instance\<close> or
  \<^verbatim>\<open>aws_launch_template\<close>, not a pure deletion, with an instance type \<open>t\<close>) whose
  catalog lookup raises, returns an empty price list, or returns a price list whose first
  entry cannot be read. Then the lookup answers \<^verbatim>\<open>None\<close>; a plan to which the change is
  appended has the outcome of the plan without it, except that \<open>t\<close> is added to
  \<^verbatim>\<open>resources.ec2_instances\<close>: the same monthly cost, the same breakdown lines, and
  the run completes whenever the run without the change does; and wherever the item
  stands among the instances, the aggregation is the aggregation without it.
\<close>

theorem failed_lookup_excluded_but_counted:
  assumes "get_products self ec2_request t = Raised
           \<or> get_products self ec2_request t = Response []
           \<or> (\<exists>price_list e. get_products self ec2_request t = Response price_list
                 \<and> read_price price_list = Inl e)"
    and "entry_parts change = Some (rt, acts, after)"
    and "rt = JStr ''aws_instance'' \<or> rt = JStr ''aws_launch_template''"
    and "acts \<noteq> JArr [JStr ''delete'']"
    and "dict_get after ''instance_type'' JNull = Inr t"
    and "truthy t"
  shows "get_ec2_price self t = None
    \<and> estimate_cost self (plan_of (entries @ [change]))
        = (case estimate_cost self (plan_of entries) of
             Inl e \<Rightarrow> Inl e
           | Inr r \<Rightarrow>
               Inr (r\<lparr>resources :=
                      (resources r)\<lparr>ec2_instances := ec2_instances (resources r) @ [t]\<rparr>\<rparr>))
    \<and> aggregate self (res\<lparr>ec2_instances := xs @ [t] @ ys\<rparr>)
        = set_resources (res\<lparr>ec2_instances := xs @ [t] @ ys\<rparr>)
            (aggregate self (res\<lparr>ec2_instances := xs @ ys\<rparr>))"
proof -
  from assms(1) have none: "get_ec2_price self t = None"
    by (auto simp: get_ec2_price_def catch_all_def read_price_def)
  then have skip: "unpriced (get_ec2_price self t)"
    by (simp add: unpriced_def)
  from assms(2-6) have step:
    "process_change r change = Inr (r\<lparr>ec2_instances := ec2_instances r @ [t]\<rparr>)" for r
    by (auto simp: process_change_parts classify_def)
  have agg: "aggregate self (r\<lparr>ec2_instances := ec2_instances r @ [t]\<rparr>)
               = set_resources (r\<lparr>ec2_instances := ec2_instances r @ [t]\<rparr>) (aggregate self r)"
    for r
    using aggregate_ec2_skip [OF skip, where res = r and xs = "ec2_instances r" and ys = "[]"]
    by simp
  have plan: "estimate_cost self (plan_of (entries @ [change]))
        = (case estimate_cost self (plan_of entries) of
             Inl e \<Rightarrow> Inl e
           | Inr r \<Rightarrow>
               Inr (r\<lparr>resources :=
                      (resources r)\<lparr>ec2_instances := ec2_instances (resources r) @ [t]\<rparr>\<rparr>))"
  proof (cases "parse_loop empty_resources entries")
    case (Inl e)
    then show ?thesis
      by (simp add: estimate_cost_def parse_plan_of parse_loop_append)
  next
    case (Inr r0)
    show ?thesis
    proof (cases "aggregate self r0")
      case (Inl e)
      with Inr show ?thesis
        by (simp add: estimate_cost_def parse_plan_of parse_loop_append step agg)
    next
      case inner: (Inr r)
      then have "resources r = r0"
        by (rule aggregate_resources)
      with Inr inner show ?thesis
        by (simp add: estimate_cost_def parse_plan_of parse_loop_append step agg)
    qed
  qed
  from none plan aggregate_ec2_skip [OF skip] show ?thesis
    by simp
qed

theorem failed_lookup_excluded_but_counted_witness:
  "get_products sample_estimator ec2_request (JStr ''m9.mystery'') = Response []
   \<and> entry_parts (change_entry (JStr ''aws_instance'') (JArr [JStr ''create''])
        (JObj [(''instance_type'', JStr ''m9.mystery'')]))
      = Some (JStr ''aws_instance'', JArr [JStr ''create''],
              JObj [(''instance_type'', JStr ''m9.mystery'')])
   \<and> JArr [JStr ''create''] \<noteq> JArr [JStr ''delete'']
   \<and> dict_get (JObj [(''instance_type'', JStr ''m9.mystery'')]) ''instance_type'' JNull
      = Inr (JStr ''m9.mystery'')
   \<and> truthy (JStr ''m9.mystery'')
   \<and> get_ec2_price sample_estimator (JStr ''m9.mystery'') = None
   \<and> estimate_cost sample_estimator
        (plan_of [change_entry (JStr ''aws_instance'') (JArr [JStr ''create''])
           (JObj [(''instance_type'', JStr ''m9.mystery'')])])
      = Inr \<lparr>monthly_cost = 0, breakdown = [],
             resources = \<lparr>ec2_instances = [JStr ''m9.mystery''], rds_instances = [],
                           albs = 0, nat_gateways = 0\<rparr>\<rparr>"
  using failed_lookup_excluded_but_counted
    [where self = sample_estimator and t = "JStr ''m9.mystery''"
       and change = "change_entry (JStr ''aws_instance'') (JArr [JStr ''create''])
           (JObj [(''instance_type'', JStr ''m9.mystery'')])"
       and rt = "JStr ''aws_instance''" and acts = "JArr [JStr ''create'']"
       and after = "JObj [(''instance_type'', JStr ''m9.mystery'')]" and entries = "[]"
       and res = empty_resources and xs = "[]" and ys = "[]"]
  by (simp add: lookup_defs estimate_cost_def parse_plan_of empty_resources_def
        aggregate_empty [unfolded empty_resources_def])

text \<open>
  Claim C10. A compute or database item whose lookup gives a price that is a zero
  (whatever its sign and exponent) is treated as an item without a price: the aggregation
  with the item, wherever it stands, is the aggregation without it, with the item still
  in the inventory; and each loop runs as it would if the lookup of the item answered
  \<^verbatim>\<open>None\<close>, so the item neither enters the hourly sum nor gets a line.
\<close>

theorem zero_price_treated_as_absent:
  assumes "is_zero z"
  shows "(get_ec2_price self t = Some z \<longrightarrow>
            aggregate self (res\<lparr>ec2_instances := xs @ [t] @ ys\<rparr>)
              = set_resources (res\<lparr>ec2_instances := xs @ [t] @ ys\<rparr>)
                  (aggregate self (res\<lparr>ec2_instances := xs @ ys\<rparr>)))
    \<and> (get_rds_price self t = Some z \<longrightarrow>
            aggregate self (res\<lparr>rds_instances := xs @ [t] @ ys\<rparr>)
              = set_resources (res\<lparr>rds_instances := xs @ [t] @ ys\<rparr>)
                  (aggregate self (res\<lparr>rds_instances := xs @ ys\<rparr>)))
    \<and> (get_price t = Some z \<longrightarrow>
            price_loop get_price label items st
              = price_loop (get_price(t := None)) label items st)"
proof -
  have "price_loop get_price label items st = price_loop (get_price(t := None)) label items st"
    if "get_price t = Some z"
  proof (rule price_loop_effective)
    fix x
    from that assms
    show "get_price x = (get_price(t := None)) x
          \<or> (unpriced (get_price x) \<and> unpriced ((get_price(t := None)) x))"
      by (simp add: unpriced_def)
  qed
  with assms show ?thesis
    by (auto simp: aggregate_ec2_skip aggregate_rds_skip unpriced_def)
qed

theorem zero_price_treated_as_absent_witness:
  "is_zero (Finite False 0 (- 10)) \<and> is_zero (Finite True 0 0)
   \<and> get_ec2_price sample_estimator (JStr ''free'') = Some (Finite False 0 (- 10))
   \<and> get_rds_price sample_estimator (JStr ''db.free'') = Some (Finite True 0 0)
   \<and> aggregate sample_estimator
        \<lparr>ec2_instances = [JStr ''free''], rds_instances = [], albs = 0, nat_gateways = 0\<rparr>
      = Inr \<lparr>monthly_cost = 0, breakdown = [],
             resources = \<lparr>ec2_instances = [JStr ''free''], rds_instances = [],
                           albs = 0, nat_gateways = 0\<rparr>\<rparr>
   \<and> aggregate sample_estimator
        \<lparr>ec2_instances = [], rds_instances = [JStr ''db.free''], albs = 0, nat_gateways = 0\<rparr>
      = Inr \<lparr>monthly_cost = 0, breakdown = [],
             resources = \<lparr>ec2_instances = [], rds_instances = [JStr ''db.free''],
                           albs = 0, nat_gateways = 0\<rparr>\<rparr>"
  using zero_price_treated_as_absent
    [where z = "Finite False 0 (- 10)" and self = sample_estimator and t = "JStr ''free''"
       and res = empty_resources and xs = "[]" and ys = "[]"]
    zero_price_treated_as_absent
    [where z = "Finite True 0 0" and self = sample_estimator and t = "JStr ''db.free''"
       and res = empty_resources and xs = "[]" and ys = "[]"]
  by (simp add: lookup_defs empty_resources_def aggregate_empty [unfolded empty_resources_def])

end
